theory Spec2Isabelle
  imports Main
begin

section \<open>Data model of \<open>database/database.py\<close>\<close>

text \<open>
  Python's \<open>str\<close> is a sequence of Unicode code points; the board synchronizer strips
  Unicode whitespace and looks for non-ASCII markers, so a string is modelled as the list
  of its code points. Python's \<open>int\<close> is unbounded and becomes \<open>int\<close>.
\<close>

type_synonym str = "nat list"

datatype UserStatus = ACTIVE | ADMIN | BANNED

datatype RoleRegion =
    MONDSTADT | LIYUE | INAZUMA | SUMERU | FONTAINE | NATLAN | SNEZHNAYA | KHAENRIAH
  | GENSHIN_OTHER
  | HSR_STAR | HSR_GERTA | HSR_YARILO | HSR_LOFU | HSR_PENACONY | HSR_AMPHOREUS
  | HSR_HUNTER | HSR_KMM | HSR_EONS | HSR_FIRE_MANSION | HSR_LORDS | HSR_OTHER | HSR_FATE

text \<open>
  A \<open>datetime\<close> object: the calendar fields and \<open>tzinfo\<close>, which is \<open>None\<close> for a naive
  value and otherwise the fixed offset from UTC in microseconds (\<open>timezone.utc\<close> is offset 0).
\<close>

record datetime =
  year :: int
  month :: int
  day :: int
  hour :: int
  minute :: int
  second :: int
  microsecond :: int
  tzinfo :: "int option"

definition timezone_utc :: "int option" where
  "timezone_utc = Some 0"

text \<open>
  The wall clock. An operation that reads \<open>datetime.now(timezone.utc)\<close> (in its body, or
  through a column default evaluated when a row is written) takes a \<open>clock\<close>: \<open>clk k\<close> holds
  the calendar fields of the \<open>k\<close>-th reading made while the call runs. The reading is always
  returned with \<open>tzinfo = timezone.utc\<close>.
\<close>

type_synonym clock = "nat \<Rightarrow> datetime"

definition datetime_now :: "clock \<Rightarrow> nat \<Rightarrow> datetime" where
  "datetime_now clk k = (clk k)\<lparr>tzinfo := timezone_utc\<rparr>"

text \<open>
  The rows of the four tables. Fields keep the column names, prefixed where two tables
  share one. The key column of a keyed table (see \<open>database\<close> below) is the key of its map;
  the surrogate \<open>id\<close> of \<open>roles\<close> and \<open>role_messages\<close>, which no operation reads, is left out.
\<close>

record User =
  username :: "str option"
  full_name :: "str option"
  status :: UserStatus
  u_created_at :: datetime
  u_updated_at :: datetime

record UserMessage =
  m_id :: int
  m_user_id :: int
  message_text :: str
  created_at :: datetime

record Role =
  region :: RoleRegion
  occupied_by :: "int option"

record RoleMessage =
  channel_id :: int
  message_id :: int
  rm_message_text :: str

text \<open>
  The stored state. Each keyed table is a map from its key to the remaining columns of the
  row. \<open>users\<close> is keyed by the primary key \<open>id\<close>. \<open>roles\<close> is keyed by \<open>name\<close>, which the
  schema declares \<open>unique=True\<close> and which every lookup of the module uses
  (\<open>select(Role).where(Role.name == role_name)\<close> followed by \<open>scalar_one_or_none()\<close>).
  \<open>role_messages\<close> is keyed by \<open>game_type\<close>: \<open>save_role_message\<close>, its only writer, deletes the
  row of that game type before it inserts. \<open>user_messages\<close> is the list of rows in insertion
  order. A timestamp column holds the value the session was handed; what the engine lets a
  query or a reader see of it is written out where it is observed.
\<close>

record database =
  users :: "int \<rightharpoonup> User"
  user_messages :: "UserMessage list"
  roles :: "str \<rightharpoonup> Role"
  role_messages :: "str \<rightharpoonup> RoleMessage"

section \<open>Users\<close>

text \<open>
  An inserted \<open>User\<close> row takes \<open>created_at\<close> and \<open>updated_at\<close> from the column defaults
  (\<open>lambda: datetime.now(timezone.utc)\<close>), read at the clock positions \<open>k\<close> and \<open>k + 1\<close>.
\<close>

definition insert_user ::
  "clock \<Rightarrow> nat \<Rightarrow> str option \<Rightarrow> str option \<Rightarrow> UserStatus \<Rightarrow> User" where
  "insert_user clk k uname fname st =
     \<lparr>username = uname, full_name = fname, status = st,
      u_created_at = datetime_now clk k, u_updated_at = datetime_now clk (k + 1)\<rparr>"

text \<open>
  \<open>user.status = s; session.commit()\<close>: the unit of work writes the row, and with it the
  \<open>onupdate\<close> value of \<open>updated_at\<close>, only when the new value differs from the loaded one.
\<close>

definition assign_status :: "clock \<Rightarrow> User \<Rightarrow> UserStatus \<Rightarrow> User" where
  "assign_status clk user s =
     (if status user = s then user
      else user\<lparr>status := s, u_updated_at := datetime_now clk 0\<rparr>)"

definition add_user ::
  "database \<Rightarrow> clock \<Rightarrow> int \<Rightarrow> str option \<Rightarrow> str option \<Rightarrow> bool \<Rightarrow> database" where
  "add_user db clk user_id uname fname is_admin =
     (case users db user_id of
        Some existing \<Rightarrow> db
      | None \<Rightarrow>
          (let st = (if is_admin then ADMIN else ACTIVE);
               new_user = insert_user clk 0 uname fname st
           in db\<lparr>users := (users db)(user_id \<mapsto> new_user)\<rparr>))"

definition set_admin :: "database \<Rightarrow> clock \<Rightarrow> int \<Rightarrow> bool \<Rightarrow> database" where
  "set_admin db clk user_id make_admin =
     (case users db user_id of
        None \<Rightarrow> db
      | Some user \<Rightarrow>
          db\<lparr>users := (users db)(user_id \<mapsto>
                assign_status clk user (if make_admin then ADMIN else ACTIVE))\<rparr>)"

definition ban_user :: "database \<Rightarrow> clock \<Rightarrow> int \<Rightarrow> database" where
  "ban_user db clk user_id =
     (case users db user_id of
        None \<Rightarrow> db
      | Some user \<Rightarrow> db\<lparr>users := (users db)(user_id \<mapsto> assign_status clk user BANNED)\<rparr>)"

definition unban_user :: "database \<Rightarrow> clock \<Rightarrow> int \<Rightarrow> database" where
  "unban_user db clk user_id =
     (case users db user_id of
        None \<Rightarrow> db
      | Some user \<Rightarrow>
          (if status user = BANNED
           then db\<lparr>users := (users db)(user_id \<mapsto> assign_status clk user ACTIVE)\<rparr>
           else db))"

definition get_user :: "database \<Rightarrow> int \<Rightarrow> User option" where
  "get_user db user_id = users db user_id"

section \<open>Calendar arithmetic of \<open>datetime\<close>\<close>

text \<open>
  The source calls \<open>dt.weekday()\<close>, \<open>dt - timedelta(days=n)\<close> and \<open>dt.replace(...)\<close>. They
  are written out here as the standard library computes them, on proleptic Gregorian
  ordinals (day 1 is 0001-01-01, a Monday).
\<close>

definition DAYS_IN_MONTH :: "int list" where
  "DAYS_IN_MONTH = [-1, 31, 28, 31, 30, 31, 30, 31, 31, 30, 31, 30, 31]"

definition DAYS_BEFORE_MONTH :: "int list" where
  "DAYS_BEFORE_MONTH = [-1, 0, 31, 59, 90, 120, 151, 181, 212, 243, 273, 304, 334]"

definition MAXORDINAL :: int where
  "MAXORDINAL = 3652059"

definition is_leap :: "int \<Rightarrow> bool" where
  "is_leap y = (y mod 4 = 0 \<and> (y mod 100 \<noteq> 0 \<or> y mod 400 = 0))"

definition days_before_year :: "int \<Rightarrow> int" where
  "days_before_year y' = (let y = y' - 1 in y * 365 + y div 4 - y div 100 + y div 400)"

definition days_before_month :: "int \<Rightarrow> int \<Rightarrow> int" where
  "days_before_month y m =
     DAYS_BEFORE_MONTH ! nat m + (if m > 2 \<and> is_leap y then 1 else 0)"

definition ymd2ord :: "int \<Rightarrow> int \<Rightarrow> int \<Rightarrow> int" where
  "ymd2ord y m d = days_before_year y + days_before_month y m + d"

definition ord2ymd :: "int \<Rightarrow> int \<times> int \<times> int" where
  "ord2ymd n0 =
     (let n = n0 - 1;
          n400 = n div 146097; n = n mod 146097;
          y = n400 * 400 + 1;
          n100 = n div 36524; n = n mod 36524;
          n4 = n div 1461; n = n mod 1461;
          n1 = n div 365; n = n mod 365;
          y = y + n100 * 100 + n4 * 4 + n1
      in if n1 = 4 \<or> n100 = 4 then (y - 1, 12, 31)
         else
           (let leapyear = (n1 = 3 \<and> (n4 \<noteq> 24 \<or> n100 = 3));
                m = (n + 50) div 32;
                preceding = DAYS_BEFORE_MONTH ! nat m + (if m > 2 \<and> leapyear then 1 else 0)
            in if preceding > n
               then (let m' = m - 1;
                         preceding' = preceding
                           - (DAYS_IN_MONTH ! nat m' + (if m' = 2 \<and> leapyear then 1 else 0))
                     in (y, m', n - preceding' + 1))
               else (y, m, n - preceding + 1)))"

definition toordinal :: "datetime \<Rightarrow> int" where
  "toordinal dt = ymd2ord (year dt) (month dt) (day dt)"

definition weekday :: "datetime \<Rightarrow> int" where
  "weekday dt = (toordinal dt + 6) mod 7"

text \<open>
  \<open>dt - timedelta(days=n)\<close>: the time of day and \<open>tzinfo\<close> are kept, the date moves \<open>n\<close> days
  back; \<open>None\<close> stands for the \<open>OverflowError\<close> raised outside the ordinals of years 1 to
  9999.
\<close>

definition sub_days :: "datetime \<Rightarrow> int \<Rightarrow> datetime option" where
  "sub_days dt n =
     (let days = toordinal dt - n
      in if 0 < days \<and> days \<le> MAXORDINAL
         then (case ord2ymd days of (y, m, d) \<Rightarrow> Some (dt\<lparr>year := y, month := m, day := d\<rparr>))
         else None)"

definition start_of_day :: "datetime \<Rightarrow> datetime" where
  "start_of_day dt = dt\<lparr>hour := 0, minute := 0, second := 0, microsecond := 0\<rparr>"

definition start_of_week_monday :: "datetime \<Rightarrow> datetime option" where
  "start_of_week_monday dt =
     (case sub_days dt (weekday dt) of
        None \<Rightarrow> None
      | Some monday \<Rightarrow> Some (monday\<lparr>hour := 0, minute := 0, second := 0, microsecond := 0\<rparr>))"

definition start_of_month :: "datetime \<Rightarrow> datetime" where
  "start_of_month dt = dt\<lparr>day := 1, hour := 0, minute := 0, second := 0, microsecond := 0\<rparr>"

section \<open>Timestamps in the storage engine\<close>

text \<open>
  The module runs on SQLite (\<open>DEFAULT_DB_URL = "sqlite+aiosqlite:///./bot.db"\<close>; the tests use
  \<open>sqlite+aiosqlite:///:memory:\<close>). A \<open>DateTime\<close> column of that dialect is text,
  \<open>YYYY-MM-DD HH:MM:SS.ffffff\<close>, rendered from the calendar fields of the value; \<open>tzinfo\<close> is
  neither converted nor written. So every observation through the engine sees the calendar
  fields alone: a comparison in a query compares the rendered texts, which for the fixed-width
  fields is the lexicographic order of the field values, and a value read back is naive.
\<close>

definition storage_fields :: "datetime \<Rightarrow> int list" where
  "storage_fields dt =
     [year dt, month dt, day dt, hour dt, minute dt, second dt, microsecond dt]"

fun lex_ge :: "int list \<Rightarrow> int list \<Rightarrow> bool" where
  "lex_ge [] ys = (ys = [])"
| "lex_ge (x # xs) [] = True"
| "lex_ge (x # xs) (y # ys) = (x > y \<or> (x = y \<and> lex_ge xs ys))"

definition result_datetime :: "datetime \<Rightarrow> datetime" where
  "result_datetime dt = dt\<lparr>tzinfo := None\<rparr>"

section \<open>Messages and statistics\<close>

text \<open>The \<open>Integer\<close> primary key of a new \<open>user_messages\<close> row: one more than the largest.\<close>

definition next_message_id :: "UserMessage list \<Rightarrow> int" where
  "next_message_id ms = fold max (map m_id ms) 0 + 1"

definition add_message ::
  "database \<Rightarrow> clock \<Rightarrow> int \<Rightarrow> str \<Rightarrow> datetime option \<Rightarrow> database" where
  "add_message db clk user_id text c_at =
     (let (db1, k) =
            (case users db user_id of
               None \<Rightarrow> (db\<lparr>users := (users db)(user_id \<mapsto> insert_user clk 0 None None ACTIVE)\<rparr>, 2)
             | Some user \<Rightarrow> (db, 0));
          ts = (case c_at of
                  Some c \<Rightarrow> (if tzinfo c = None then c\<lparr>tzinfo := timezone_utc\<rparr> else c)
                | None \<Rightarrow> datetime_now clk k);
          record = \<lparr>m_id = next_message_id (user_messages db1), m_user_id = user_id,
                    message_text = text, created_at = ts\<rparr>
      in db1\<lparr>user_messages := user_messages db1 @ [record]\<rparr>)"

definition count_from :: "database \<Rightarrow> int \<Rightarrow> datetime \<Rightarrow> int" where
  "count_from db user_id since =
     int (length (filter (\<lambda>m. m_user_id m = user_id
                                \<and> lex_ge (storage_fields (created_at m)) (storage_fields since))
                         (user_messages db)))"

text \<open>
  Reading the messages of a user back, as the tests do
  (\<open>select(UserMessage).where(UserMessage.user_id == user_id)\<close>, then \<open>scalars().all()\<close>): the
  rows of that user in insertion order, each timestamp as the engine returns it.
\<close>

definition select_user_messages :: "database \<Rightarrow> int \<Rightarrow> UserMessage list" where
  "select_user_messages db user_id =
     map (\<lambda>m. m\<lparr>created_at := result_datetime (created_at m)\<rparr>)
         (filter (\<lambda>m. m_user_id m = user_id) (user_messages db))"

definition epoch_start :: datetime where
  "epoch_start = \<lparr>year = 1970, month = 1, day = 1, hour = 0, minute = 0, second = 0,
                   microsecond = 0, tzinfo = timezone_utc\<rparr>"

definition get_message_stats ::
  "database \<Rightarrow> clock \<Rightarrow> int \<Rightarrow> (int \<times> int \<times> int \<times> int) option" where
  "get_message_stats db clk user_id =
     (let now = datetime_now clk 0;
          day_start = start_of_day now
      in case start_of_week_monday now of
           None \<Rightarrow> None
         | Some week_start \<Rightarrow>
             (let month_start = start_of_month now;
                  day_count = count_from db user_id day_start;
                  week_count = count_from db user_id week_start;
                  month_count = count_from db user_id month_start;
                  total_count = count_from db user_id epoch_start
              in Some (day_count, week_count, month_count, total_count)))"

section \<open>The role board\<close>

text \<open>\<open>str.isspace\<close> on one code point: the characters \<open>str.strip()\<close> removes.\<close>

definition py_isspace :: "nat \<Rightarrow> bool" where
  "py_isspace c =
     ((9 \<le> c \<and> c \<le> 13) \<or> (28 \<le> c \<and> c \<le> 32) \<or> c = 133 \<or> c = 160 \<or> c = 5760
      \<or> (8192 \<le> c \<and> c \<le> 8202) \<or> c = 8232 \<or> c = 8233 \<or> c = 8239 \<or> c = 8287 \<or> c = 12288)"

definition strip :: "str \<Rightarrow> str" where
  "strip s = rev (dropWhile py_isspace (rev (dropWhile py_isspace s)))"

definition startswith :: "'a list \<Rightarrow> 'a list \<Rightarrow> bool" where
  "startswith s p = (take (length p) s = p)"

text \<open>\<open>marker in line\<close>\<close>

fun substring_in :: "str \<Rightarrow> str \<Rightarrow> bool" where
  "substring_in marker [] = (marker = [])"
| "substring_in marker (c # cs) = (startswith (c # cs) marker \<or> substring_in marker cs)"

text \<open>\<open>s.replace(c, '')\<close> for a pattern \<open>c\<close> of one code point: every occurrence is deleted.\<close>

definition replace_empty :: "str \<Rightarrow> nat \<Rightarrow> str" where
  "replace_empty s c = filter (\<lambda>x. x \<noteq> c) s"

text \<open>\<open>text.split('\n')\<close> and \<open>'\n'.join(lines)\<close>\<close>

fun split_nl :: "str \<Rightarrow> str list" where
  "split_nl [] = [[]]"
| "split_nl (c # cs) =
     (if c = 10 then [] # split_nl cs
      else (case split_nl cs of l # ls \<Rightarrow> (c # l) # ls | [] \<Rightarrow> [[c]]))"

fun join_nl :: "str list \<Rightarrow> str" where
  "join_nl [] = []"
| "join_nl [l] = l"
| "join_nl (l # ls) = l @ [10] @ join_nl ls"

text \<open>The markers of header lines, the check mark and the clock, as code points.\<close>

definition MARKERS :: "str list" where
  "MARKERS = [[7502],
              [1057, 1055, 1048, 1057, 1054, 1050],
              [1045, 1089, 1083, 1080, 32, 1087, 1077, 1088, 1089, 1086, 1085, 1072, 1078, 1072]]"

definition CHECK_MARK :: nat where
  "CHECK_MARK = 9989"

definition CLOCK :: nat where
  "CLOCK = 128338"

text \<open>The loop of \<open>update_role_message\<close> over the lines, appending to \<open>updated_lines\<close>.\<close>

fun update_lines :: "(str \<rightharpoonup> int option) \<Rightarrow> str list \<Rightarrow> str list \<Rightarrow> str list" where
  "update_lines role_status_dict [] updated_lines = updated_lines"
| "update_lines role_status_dict (line # lines) updated_lines =
     (if strip line = [] \<or> list_ex (\<lambda>marker. substring_in marker line) MARKERS
      then update_lines role_status_dict lines (updated_lines @ [line])
      else
        (let role_name = strip (replace_empty (replace_empty (strip line) CHECK_MARK) CLOCK);
             updated_line =
               (case role_status_dict role_name of
                  Some occupant \<Rightarrow>
                    (if occupant \<noteq> None then role_name @ [32, CHECK_MARK] else role_name)
                | None \<Rightarrow> line)
         in update_lines role_status_dict lines (updated_lines @ [updated_line])))"

definition updated_text :: "(str \<rightharpoonup> int option) \<Rightarrow> str \<Rightarrow> str" where
  "updated_text role_status_dict message_text' =
     join_nl (update_lines role_status_dict (split_nl message_text') [])"

text \<open>
  \<open>get_role_status\<close> collected into \<open>role_status_dict\<close>: each role name with its occupant.
\<close>

definition role_status_dict :: "database \<Rightarrow> (str \<rightharpoonup> int option)" where
  "role_status_dict db = (\<lambda>n. map_option occupied_by (roles db n))"

text \<open>
  The chat-edit capability: \<open>bot chat_id message_id text\<close> is \<open>True\<close> when
  \<open>edit_message_text\<close> returns and \<open>False\<close> when it raises. An operation returns the calls it
  made, in order, beside its result.
\<close>

type_synonym bot = "int \<Rightarrow> int \<Rightarrow> str \<Rightarrow> bool"
type_synonym edit = "int \<times> int \<times> str"

definition update_role_message :: "database \<Rightarrow> str \<Rightarrow> bot \<Rightarrow> bool \<times> edit list" where
  "update_role_message db gtype b =
     (case role_messages db gtype of
        None \<Rightarrow> (False, [])
      | Some role_message \<Rightarrow>
          (let txt = updated_text (role_status_dict db) (rm_message_text role_message)
           in (b (channel_id role_message) (message_id role_message) txt,
               [(channel_id role_message, message_id role_message, txt)])))"

section \<open>Roles\<close>

text \<open>The member names of \<open>RoleRegion\<close> and the ASCII literals, as code points.\<close>

definition ascii :: "string \<Rightarrow> str" where
  "ascii s = map of_char s"

fun region_name :: "RoleRegion \<Rightarrow> string" where
  "region_name MONDSTADT = ''MONDSTADT''"
| "region_name LIYUE = ''LIYUE''"
| "region_name INAZUMA = ''INAZUMA''"
| "region_name SUMERU = ''SUMERU''"
| "region_name FONTAINE = ''FONTAINE''"
| "region_name NATLAN = ''NATLAN''"
| "region_name SNEZHNAYA = ''SNEZHNAYA''"
| "region_name KHAENRIAH = ''KHAENRIAH''"
| "region_name GENSHIN_OTHER = ''GENSHIN_OTHER''"
| "region_name HSR_STAR = ''HSR_STAR''"
| "region_name HSR_GERTA = ''HSR_GERTA''"
| "region_name HSR_YARILO = ''HSR_YARILO''"
| "region_name HSR_LOFU = ''HSR_LOFU''"
| "region_name HSR_PENACONY = ''HSR_PENACONY''"
| "region_name HSR_AMPHOREUS = ''HSR_AMPHOREUS''"
| "region_name HSR_HUNTER = ''HSR_HUNTER''"
| "region_name HSR_KMM = ''HSR_KMM''"
| "region_name HSR_EONS = ''HSR_EONS''"
| "region_name HSR_FIRE_MANSION = ''HSR_FIRE_MANSION''"
| "region_name HSR_LORDS = ''HSR_LORDS''"
| "region_name HSR_OTHER = ''HSR_OTHER''"
| "region_name HSR_FATE = ''HSR_FATE''"

definition game_type_of :: "RoleRegion \<Rightarrow> str" where
  "game_type_of r =
     (if startswith (region_name r) ''HSR_'' then ascii ''hsr'' else ascii ''genshin'')"

definition resync :: "database \<Rightarrow> Role \<Rightarrow> bot option \<Rightarrow> edit list" where
  "resync db role b =
     (case b of
        None \<Rightarrow> []
      | Some b' \<Rightarrow> snd (update_role_message db (game_type_of (region role)) b'))"

definition assign_role ::
  "database \<Rightarrow> str \<Rightarrow> int \<Rightarrow> bot option \<Rightarrow> bool \<times> database \<times> edit list" where
  "assign_role db role_name user_id b =
     (case roles db role_name of
        None \<Rightarrow> (False, db, [])
      | Some role \<Rightarrow>
          (if occupied_by role \<noteq> None then (False, db, [])
           else
             (case users db user_id of
                None \<Rightarrow> (False, db, [])
              | Some user \<Rightarrow>
                  (if status user = BANNED then (False, db, [])
                   else
                     (let db' = db\<lparr>roles := (roles db)(role_name \<mapsto>
                                                role\<lparr>occupied_by := Some user_id\<rparr>)\<rparr>
                      in (True, db', resync db' role b))))))"

definition release_role ::
  "database \<Rightarrow> str \<Rightarrow> bot option \<Rightarrow> bool \<times> database \<times> edit list" where
  "release_role db role_name b =
     (case roles db role_name of
        None \<Rightarrow> (False, db, [])
      | Some role \<Rightarrow>
          (if occupied_by role = None then (False, db, [])
           else
             (let db' = db\<lparr>roles := (roles db)(role_name \<mapsto> role\<lparr>occupied_by := None\<rparr>)\<rparr>
              in (True, db', resync db' role b))))"

definition get_role_by_name :: "database \<Rightarrow> str \<Rightarrow> Role option" where
  "get_role_by_name db role_name = roles db role_name"

definition init_roles :: "database \<Rightarrow> (str \<times> RoleRegion) list \<Rightarrow> database" where
  "init_roles db rs =
     fold (\<lambda>(name, reg) d.
             (case roles d name of
                Some role \<Rightarrow> d
              | None \<Rightarrow> d\<lparr>roles := (roles d)(name \<mapsto> \<lparr>region = reg, occupied_by = None\<rparr>)\<rparr>))
          rs db"

definition save_role_message :: "database \<Rightarrow> str \<Rightarrow> int \<Rightarrow> int \<Rightarrow> str \<Rightarrow> database" where
  "save_role_message db gtype chan msg txt =
     db\<lparr>role_messages := (role_messages db)(gtype \<mapsto>
          \<lparr>channel_id = chan, message_id = msg, rm_message_text = txt\<rparr>)\<rparr>"

section \<open>The board line rule, as the specification words it\<close>

text \<open>
  A line is blank when it holds nothing but whitespace, and decorative when one of the
  markers occurs in it. The candidate role name of a line is the line without check marks,
  clocks and surrounding whitespace. A blank or decorative line stays; any other line
  becomes the candidate name with a check mark suffix when the snapshot has the name
  occupied, the bare name when it has it free, and stays when the snapshot lacks the name.
\<close>

definition blank_line :: "str \<Rightarrow> bool" where
  "blank_line line = (\<forall>c \<in> set line. py_isspace c)"

definition has_marker :: "str \<Rightarrow> bool" where
  "has_marker line = (\<exists>m \<in> set MARKERS. \<exists>pre post. line = pre @ m @ post)"

definition candidate_name :: "str \<Rightarrow> str" where
  "candidate_name line = strip (filter (\<lambda>c. c \<noteq> CHECK_MARK \<and> c \<noteq> CLOCK) (strip line))"

definition board_line_spec :: "(str \<rightharpoonup> int option) \<Rightarrow> str \<Rightarrow> str" where
  "board_line_spec d line =
     (if blank_line line \<or> has_marker line then line
      else (case d (candidate_name line) of
              None \<Rightarrow> line
            | Some None \<Rightarrow> candidate_name line
            | Some (Some u) \<Rightarrow> candidate_name line @ [32, CHECK_MARK]))"

section \<open>Scenario states\<close>

text \<open>
  Wednesday 2024-05-01, noon UTC: a week that began in April. The \<open>k\<close>-th reading of the
  clock is \<open>k\<close> microseconds past noon.
\<close>

definition may_day_clock :: clock where
  "may_day_clock k = \<lparr>year = 2024, month = 5, day = 1, hour = 12, minute = 0, second = 0,
                       microsecond = int k, tzinfo = None\<rparr>"

definition april_30_noon :: datetime where
  "april_30_noon = \<lparr>year = 2024, month = 4, day = 30, hour = 12, minute = 0, second = 0,
                     microsecond = 0, tzinfo = None\<rparr>"

definition empty_db :: database where
  "empty_db = \<lparr>users = Map.empty, user_messages = [], roles = Map.empty,
                role_messages = Map.empty\<rparr>"

text \<open>
  Two seeded roles; user 42 registered, user 1 registered as admin, user 5 registered and
  banned; user 42 holds the second role.
\<close>

definition seeded_db :: database where
  "seeded_db =
     init_roles empty_db [(ascii ''Albedo'', MONDSTADT), (ascii ''Kafka'', HSR_STAR)]"

definition scenario_db :: database where
  "scenario_db =
     fst (snd (assign_role
       (ban_user
          (add_user
             (add_user
                (add_user seeded_db may_day_clock 42 (Some (ascii ''neo'')) None False)
                may_day_clock 1 None (Some (ascii ''Root'')) True)
             may_day_clock 5 None None False)
          may_day_clock 5)
       (ascii ''Kafka'') 42 None))"

text \<open>
  A board: a header line, a pending role, a blank line, an indented occupied role and a line
  of free text that names no role.
\<close>

definition board_text :: str where
  "board_text =
     [1057, 1055, 1048, 1057, 1054, 1050] @ [10] @ ascii ''Albedo '' @ [CLOCK] @ [10, 10]
       @ ascii ''  Kafka'' @ [10] @ ascii ''Free text '' @ [CHECK_MARK]"

definition board_text_synced :: str where
  "board_text_synced =
     [1057, 1055, 1048, 1057, 1054, 1050] @ [10] @ ascii ''Albedo'' @ [10, 10]
       @ ascii ''Kafka '' @ [CHECK_MARK] @ [10] @ ascii ''Free text '' @ [CHECK_MARK]"

text \<open>The scenario state with that board published for the Genshin roles.\<close>

definition board_db :: database where
  "board_db = save_role_message scenario_db (ascii ''genshin'') (-100123456) 123 board_text"

section \<open>The scenario states, evaluated\<close>

lemmas scenario_defs =
  scenario_db_def seeded_db_def empty_db_def init_roles_def assign_role_def ban_user_def
  add_user_def insert_user_def assign_status_def resync_def ascii_def

lemma scenario_users:
  "\<exists>user. users scenario_db 42 = Some user \<and> status user = ACTIVE"
  "\<exists>user. users scenario_db 1 = Some user \<and> status user = ADMIN"
  "\<exists>user. users scenario_db 5 = Some user \<and> status user = BANNED"
  "users scenario_db 99 = None"
  by (simp_all add: scenario_defs)

lemma scenario_roles:
  "roles scenario_db (ascii ''Albedo'') = Some \<lparr>region = MONDSTADT, occupied_by = None\<rparr>"
  "roles scenario_db (ascii ''Kafka'') = Some \<lparr>region = HSR_STAR, occupied_by = Some 42\<rparr>"
  "roles scenario_db (ascii ''Nobody'') = None"
  by (simp_all add: scenario_defs)

lemma empty_db_users: "users empty_db user_id = None"
  by (simp add: empty_db_def)

section \<open>Registration\<close>

lemma add_user_existing:
  "users db user_id = Some u \<Longrightarrow> add_user db clk user_id uname fname is_admin = db"
  by (simp add: add_user_def)

lemma add_user_registers:
  "\<exists>u. users (add_user db clk user_id uname fname is_admin) user_id = Some u"
  by (simp add: add_user_def Let_def split: option.splits)

lemma add_user_new:
  "users db user_id = None \<Longrightarrow>
     users (add_user db clk user_id uname fname is_admin) user_id
       = Some (insert_user clk 0 uname fname (if is_admin then ADMIN else ACTIVE))"
  by (simp add: add_user_def Let_def)

text \<open>
  Claim C3. A second \<open>add_user\<close> for the same user id, whatever handle, display name and
  admin flag it carries, returns the stored state of the first call: the record, and so its
  \<open>username\<close>, \<open>full_name\<close> and \<open>status\<close>, is the one the first call left. The operation has no
  failing branch.
\<close>

theorem add_user_idempotent:
  "\<exists>u. users (add_user db clk user_id uname fname is_admin) user_id = Some u
     \<and> users (add_user (add_user db clk user_id uname fname is_admin)
                 clk' user_id uname' fname' is_admin') user_id = Some u
     \<and> add_user (add_user db clk user_id uname fname is_admin)
                 clk' user_id uname' fname' is_admin'
         = add_user db clk user_id uname fname is_admin"
proof -
  obtain u where u: "users (add_user db clk user_id uname fname is_admin) user_id = Some u"
    using add_user_registers by blast
  have "add_user (add_user db clk user_id uname fname is_admin)
          clk' user_id uname' fname' is_admin'
        = add_user db clk user_id uname fname is_admin"
    using u by (rule add_user_existing)
  with u show ?thesis by simp
qed

theorem add_user_idempotent_witness:
  "map_option username
     (users (add_user (add_user empty_db may_day_clock 42 (Some (ascii ''neo'')) None False)
               may_day_clock 42 (Some (ascii ''smith'')) (Some (ascii ''Agent'')) True) 42)
     = Some (Some (ascii ''neo''))
   \<and> map_option full_name
     (users (add_user (add_user empty_db may_day_clock 42 (Some (ascii ''neo'')) None False)
               may_day_clock 42 (Some (ascii ''smith'')) (Some (ascii ''Agent'')) True) 42)
     = Some None
   \<and> map_option status
     (users (add_user (add_user empty_db may_day_clock 42 (Some (ascii ''neo'')) None False)
               may_day_clock 42 (Some (ascii ''smith'')) (Some (ascii ''Agent'')) True) 42)
     = Some ACTIVE"
proof -
  have first: "users (add_user empty_db may_day_clock 42 (Some (ascii ''neo'')) None False) 42
      = Some (insert_user may_day_clock 0 (Some (ascii ''neo'')) None ACTIVE)"
    using add_user_new [of empty_db 42 may_day_clock "Some (ascii ''neo'')" None False,
        OF empty_db_users]
    by simp
  show ?thesis
    using first
      add_user_idempotent [of empty_db may_day_clock 42 "Some (ascii ''neo'')" None False
        may_day_clock "Some (ascii ''smith'')" "Some (ascii ''Agent'')" True]
    by (auto simp: insert_user_def)
qed

section \<open>Status changes\<close>

text \<open>
  Claim C5. \<open>unban_user\<close> returns a state other than the one it was given only when the
  user exists with status \<open>BANNED\<close>, and then the status becomes \<open>ACTIVE\<close> (and \<open>updated_at\<close>
  is stamped); for an \<open>ADMIN\<close> user the state, and so the status \<open>ADMIN\<close>, stays, and for a
  missing user the state stays.
\<close>

theorem unban_user_only_banned:
  "(unban_user db clk user_id \<noteq> db \<longrightarrow>
      (\<exists>u. users db user_id = Some u \<and> status u = BANNED))
   \<and> (\<forall>u. users db user_id = Some u \<and> status u = BANNED \<longrightarrow>
        unban_user db clk user_id
          = db\<lparr>users := (users db)(user_id \<mapsto>
                  u\<lparr>status := ACTIVE, u_updated_at := datetime_now clk 0\<rparr>)\<rparr>)
   \<and> (\<forall>u. users db user_id = Some u \<and> status u = ADMIN \<longrightarrow>
        unban_user db clk user_id = db
        \<and> map_option status (users (unban_user db clk user_id) user_id) = Some ADMIN)
   \<and> (users db user_id = None \<longrightarrow> unban_user db clk user_id = db)"
  by (auto simp: unban_user_def assign_status_def split: option.splits)

theorem unban_user_only_banned_witness:
  "unban_user scenario_db may_day_clock 1 = scenario_db
   \<and> map_option status (users (unban_user scenario_db may_day_clock 1) 1) = Some ADMIN
   \<and> map_option status (users (unban_user scenario_db may_day_clock 5) 5) = Some ACTIVE
   \<and> unban_user scenario_db may_day_clock 99 = scenario_db"
proof -
  obtain a where a: "users scenario_db 1 = Some a" "status a = ADMIN"
    using scenario_users(2) by blast
  obtain c where c: "users scenario_db 5 = Some c" "status c = BANNED"
    using scenario_users(3) by blast
  have admin: "unban_user scenario_db may_day_clock 1 = scenario_db
      \<and> map_option status (users (unban_user scenario_db may_day_clock 1) 1) = Some ADMIN"
    using unban_user_only_banned [of scenario_db may_day_clock 1] a by blast
  have "unban_user scenario_db may_day_clock 5
      = scenario_db\<lparr>users := (users scenario_db)(5 \<mapsto>
          c\<lparr>status := ACTIVE, u_updated_at := datetime_now may_day_clock 0\<rparr>)\<rparr>"
    using unban_user_only_banned [of scenario_db may_day_clock 5] c by blast
  then have banned:
    "map_option status (users (unban_user scenario_db may_day_clock 5) 5) = Some ACTIVE"
    by simp
  have missing: "unban_user scenario_db may_day_clock 99 = scenario_db"
    using unban_user_only_banned [of scenario_db may_day_clock 99] scenario_users(4) by blast
  from admin banned missing show ?thesis
    by blast
qed

text \<open>
  Claim C9. \<open>set_admin\<close> with \<open>make_admin = False\<close> on an existing user leaves the user with
  status \<open>ACTIVE\<close> whatever the status was, \<open>BANNED\<close> included, and keeps the handle and the
  display name.
\<close>

theorem set_admin_false_sets_active:
  "users db user_id = Some u \<Longrightarrow>
     \<exists>u'. users (set_admin db clk user_id False) user_id = Some u'
        \<and> status u' = ACTIVE \<and> username u' = username u \<and> full_name u' = full_name u"
  by (simp add: set_admin_def assign_status_def)

theorem set_admin_false_sets_active_witness:
  "(\<exists>u. users scenario_db 5 = Some u \<and> status u = BANNED)
   \<and> (\<exists>u'. users (set_admin scenario_db may_day_clock 5 False) 5 = Some u'
          \<and> status u' = ACTIVE)"
proof -
  obtain u where u: "users scenario_db 5 = Some u" "status u = BANNED"
    using scenario_users(3) by blast
  from set_admin_false_sets_active [OF u(1), of may_day_clock] u show ?thesis
    by blast
qed

section \<open>Messages\<close>


lemma add_message_creates_user:
  "users db user_id = None \<Longrightarrow>
     users (add_message db clk user_id text c_at) user_id
       = Some (insert_user clk 0 None None ACTIVE)"
  by (simp add: add_message_def Let_def split: option.splits)

lemma add_message_keeps_user:
  "users db user_id = Some u \<Longrightarrow> users (add_message db clk user_id text c_at) = users db"
  by (simp add: add_message_def Let_def split: option.splits)

lemma select_user_messages_append:
  "select_user_messages (db\<lparr>user_messages := user_messages db @ [m]\<rparr>) user_id
     = select_user_messages db user_id
       @ (if m_user_id m = user_id then [m\<lparr>created_at := result_datetime (created_at m)\<rparr>]
          else [])"
  by (simp add: select_user_messages_def)






lemma fold_add_user_existing:
  "users d user_id = Some u \<Longrightarrow>
     fold (\<lambda>(clk', uname, fname, is_admin) d'. add_user d' clk' user_id uname fname is_admin)
          calls d = d"
proof (induction calls)
  case Nil
  then show ?case by simp
next
  case (Cons c calls)
  then show ?case
    by (cases c) (simp add: add_user_existing)
qed

text \<open>
  Claim C10. When \<open>add_message\<close> is called for a user id without a record, the user row it
  creates has \<open>username = None\<close> and \<open>full_name = None\<close>; and after any sequence of later
  \<open>add_user\<close> calls for that id, whatever handle and display name they carry, the row is
  still that one.
\<close>

theorem autocreated_user_stays_unnamed:
  assumes "users db user_id = None"
  shows "\<exists>u. users (add_message db clk user_id text c_at) user_id = Some u
           \<and> username u = None \<and> full_name u = None
           \<and> users (fold (\<lambda>(clk', uname, fname, is_admin) d'.
                             add_user d' clk' user_id uname fname is_admin)
                          calls (add_message db clk user_id text c_at)) user_id = Some u"
proof -
  let ?u = "insert_user clk 0 None None ACTIVE"
  have created: "users (add_message db clk user_id text c_at) user_id = Some ?u"
    using assms by (rule add_message_creates_user)
  have "fold (\<lambda>(clk', uname, fname, is_admin) d'.
                add_user d' clk' user_id uname fname is_admin)
             calls (add_message db clk user_id text c_at)
          = add_message db clk user_id text c_at"
    using created by (rule fold_add_user_existing)
  with created show ?thesis
    by (simp add: insert_user_def)
qed

theorem autocreated_user_stays_unnamed_witness:
  "users empty_db 7 = None
   \<and> (\<exists>u. users (add_message empty_db may_day_clock 7 (ascii ''hi'') None) 7 = Some u
          \<and> username u = None \<and> full_name u = None
          \<and> users (add_user (add_message empty_db may_day_clock 7 (ascii ''hi'') None)
                      may_day_clock 7 (Some (ascii ''neo'')) (Some (ascii ''Thomas'')) False) 7
              = Some u)"
  using empty_db_users [of 7]
    autocreated_user_stays_unnamed [of empty_db 7 may_day_clock "ascii ''hi''" None
      "[(may_day_clock, Some (ascii ''neo''), Some (ascii ''Thomas''), False)]",
      OF empty_db_users]
  by simp

section \<open>Statistics\<close>

text \<open>
  Claim C2. On Wednesday 2024-05-01 at noon UTC, with one stored message of user 7 from
  2024-04-30 noon UTC, \<open>get_message_stats\<close> returns day 0, week 1, month 0, total 1: the week
  began on Monday 2024-04-29, before the month did, so the week count exceeds the month
  count.
\<close>

theorem get_message_stats_month_boundary:
  "get_message_stats
     (add_message empty_db may_day_clock 7 (ascii ''hi'') (Some april_30_noon))
     may_day_clock 7
   = Some (0, 1, 0, 1)"
  by (simp add: get_message_stats_def add_message_def count_from_def storage_fields_def
      epoch_start_def start_of_day_def start_of_month_def empty_db_def april_30_noon_def
      next_message_id_def insert_user_def start_of_week_monday_def sub_days_def ord2ymd_def
      MAXORDINAL_def DAYS_IN_MONTH_def weekday_def toordinal_def ymd2ord_def
      days_before_year_def days_before_month_def DAYS_BEFORE_MONTH_def is_leap_def
      datetime_now_def may_day_clock_def timezone_utc_def Let_def)

section \<open>Roles\<close>

text \<open>
  Claim C1. \<open>assign_role\<close> returns true exactly when a role of that name exists with a null
  occupant and a user of that id exists whose status is not \<open>BANNED\<close>; when it returns true
  the occupant of the role in the resulting state is that user, and when it returns false
  the state is the one it was given.
\<close>

theorem assign_role_succeeds_iff:
  "(fst (assign_role db r u b) \<longleftrightarrow>
      (\<exists>role user. roles db r = Some role \<and> occupied_by role = None
                 \<and> users db u = Some user \<and> status user \<noteq> BANNED))
   \<and> (fst (assign_role db r u b) \<longrightarrow>
        map_option occupied_by (roles (fst (snd (assign_role db r u b))) r) = Some (Some u))
   \<and> (\<not> fst (assign_role db r u b) \<longrightarrow> fst (snd (assign_role db r u b)) = db)"
  by (auto simp: assign_role_def Let_def split: option.splits)

theorem assign_role_succeeds_iff_witness:
  "fst (assign_role scenario_db (ascii ''Albedo'') 42 None)
   \<and> map_option occupied_by
       (roles (fst (snd (assign_role scenario_db (ascii ''Albedo'') 42 None))) (ascii ''Albedo''))
     = Some (Some 42)
   \<and> \<not> fst (assign_role scenario_db (ascii ''Albedo'') 5 None)
   \<and> \<not> fst (assign_role scenario_db (ascii ''Albedo'') 99 None)
   \<and> \<not> fst (assign_role scenario_db (ascii ''Kafka'') 1 None)
   \<and> \<not> fst (assign_role scenario_db (ascii ''Nobody'') 42 None)"
proof -
  have free: "\<exists>role. roles scenario_db (ascii ''Albedo'') = Some role \<and> occupied_by role = None"
    by (simp add: scenario_roles)
  have taken: "\<exists>role. roles scenario_db (ascii ''Kafka'') = Some role \<and> occupied_by role \<noteq> None"
    by (simp add: scenario_roles)
  have ok: "\<exists>user. users scenario_db 42 = Some user \<and> status user \<noteq> BANNED"
    using scenario_users(1) by auto
  have a: "fst (assign_role scenario_db (ascii ''Albedo'') 42 None)"
    using assign_role_succeeds_iff [of scenario_db "ascii ''Albedo''" 42 None] free ok by blast
  have b: "\<not> fst (assign_role scenario_db (ascii ''Albedo'') 5 None)"
    using assign_role_succeeds_iff [of scenario_db "ascii ''Albedo''" 5 None] scenario_users(3)
    by auto
  have c: "\<not> fst (assign_role scenario_db (ascii ''Albedo'') 99 None)"
    using assign_role_succeeds_iff [of scenario_db "ascii ''Albedo''" 99 None] scenario_users(4)
    by auto
  have d: "\<not> fst (assign_role scenario_db (ascii ''Kafka'') 1 None)"
    using assign_role_succeeds_iff [of scenario_db "ascii ''Kafka''" 1 None] taken by auto
  have e: "\<not> fst (assign_role scenario_db (ascii ''Nobody'') 42 None)"
    using assign_role_succeeds_iff [of scenario_db "ascii ''Nobody''" 42 None] scenario_roles(3)
    by auto
  show ?thesis
    using a b c d e assign_role_succeeds_iff [of scenario_db "ascii ''Albedo''" 42 None]
    by blast
qed

text \<open>
  Claim C4. \<open>release_role\<close> on a name that no role has, or on a role whose occupant is
  already null, returns false with the stored state it was given and without any chat
  edit; the operation has no failing branch.
\<close>

theorem release_role_refuses:
  "roles db r = None \<or> (\<exists>role. roles db r = Some role \<and> occupied_by role = None)
   \<Longrightarrow> release_role db r b = (False, db, [])"
  by (auto simp: release_role_def)

theorem release_role_refuses_witness:
  "release_role scenario_db (ascii ''Nobody'') None = (False, scenario_db, [])
   \<and> release_role scenario_db (ascii ''Albedo'') None = (False, scenario_db, [])"
proof -
  have free: "\<exists>role. roles scenario_db (ascii ''Albedo'') = Some role \<and> occupied_by role = None"
    by (simp add: scenario_roles)
  show ?thesis
    using release_role_refuses [of scenario_db "ascii ''Nobody''" None]
      release_role_refuses [of scenario_db "ascii ''Albedo''" None]
      scenario_roles(3) free
    by blast
qed

section \<open>The role board\<close>

lemma strip_empty_iff: "strip s = [] \<longleftrightarrow> (\<forall>c \<in> set s. py_isspace c)"
proof
  assume "strip s = []"
  then have "dropWhile py_isspace (rev (dropWhile py_isspace s)) = []"
    by (simp add: strip_def)
  then have "\<forall>c \<in> set (dropWhile py_isspace s). py_isspace c"
    by simp
  then have "dropWhile py_isspace s = []"
    by (metis hd_dropWhile list.set_sel(1))
  then show "\<forall>c \<in> set s. py_isspace c"
    by simp
next
  assume "\<forall>c \<in> set s. py_isspace c"
  then have e: "dropWhile py_isspace s = []" by simp
  show "strip s = []"
    unfolding strip_def e by simp
qed

lemma startswith_iff: "startswith s p \<longleftrightarrow> (\<exists>post. s = p @ post)"
  unfolding startswith_def
  by (metis append_eq_conv_conj append_take_drop_id)

lemma substring_in_iff: "substring_in m s \<longleftrightarrow> (\<exists>pre post. s = pre @ m @ post)"
proof (induction s)
  case Nil
  then show ?case by auto
next
  case (Cons c cs)
  show ?case
  proof
    assume "substring_in m (c # cs)"
    then consider "startswith (c # cs) m" | "substring_in m cs" by auto
    then show "\<exists>pre post. c # cs = pre @ m @ post"
    proof cases
      case 1
      then obtain post where "c # cs = m @ post" using startswith_iff by blast
      then have "c # cs = [] @ m @ post" by simp
      then show ?thesis by blast
    next
      case 2
      then obtain pre post where "cs = pre @ m @ post" using Cons.IH by blast
      then have "c # cs = (c # pre) @ m @ post" by simp
      then show ?thesis by blast
    qed
  next
    assume "\<exists>pre post. c # cs = pre @ m @ post"
    then obtain pre post where eq: "c # cs = pre @ m @ post" by blast
    show "substring_in m (c # cs)"
    proof (cases pre)
      case Nil
      with eq have "startswith (c # cs) m" using startswith_iff by auto
      then show ?thesis by simp
    next
      case (Cons p pre')
      with eq have "cs = pre' @ m @ post" by simp
      then have "substring_in m cs" using Cons.IH by blast
      then show ?thesis by simp
    qed
  qed
qed

lemma marker_test_iff:
  "list_ex (\<lambda>marker. substring_in marker line) MARKERS \<longleftrightarrow> has_marker line"
  by (simp add: has_marker_def list_ex_iff substring_in_iff)

lemma role_name_candidate:
  "strip (replace_empty (replace_empty (strip line) CHECK_MARK) CLOCK) = candidate_name line"
  by (simp add: candidate_name_def replace_empty_def conj_commute)

lemma update_lines_map:
  "update_lines d ls acc = acc @ map (board_line_spec d) ls"
proof (induction ls arbitrary: acc)
  case Nil
  then show ?case by simp
next
  case (Cons line ls)
  show ?case
  proof (cases "blank_line line \<or> has_marker line")
    case True
    then show ?thesis
      using Cons.IH by (simp add: strip_empty_iff marker_test_iff blank_line_def[symmetric] board_line_spec_def)
  next
    case False
    then show ?thesis
      using Cons.IH
      by (simp add: strip_empty_iff marker_test_iff blank_line_def[symmetric] board_line_spec_def
            role_name_candidate Let_def split: option.splits)
  qed
qed

lemma split_nl_nonempty: "split_nl s \<noteq> []"
  by (induction s) (auto split: list.splits)

lemma join_nl_Cons: "ls \<noteq> [] \<Longrightarrow> join_nl (l # ls) = l @ [10] @ join_nl ls"
  by (cases ls) auto

lemma join_split_nl: "join_nl (split_nl s) = s"
proof (induction s)
  case Nil
  then show ?case by simp
next
  case (Cons c cs)
  show ?case
  proof (cases "c = 10")
    case True
    then show ?thesis using Cons.IH by (simp add: join_nl_Cons split_nl_nonempty)
  next
    case False
    obtain l ls where sp: "split_nl cs = l # ls"
      using split_nl_nonempty by (cases "split_nl cs") auto
    then have "join_nl ((c # l) # ls) = c # join_nl (l # ls)"
      by (cases ls) auto
    with False sp Cons.IH show ?thesis by simp
  qed
qed

lemma split_nl_no_newline: "l \<in> set (split_nl s) \<Longrightarrow> 10 \<notin> set l"
proof (induction s arbitrary: l)
  case Nil
  then show ?case by simp
next
  case (Cons c cs)
  obtain h t where sp: "split_nl cs = h # t"
    using split_nl_nonempty by (cases "split_nl cs") auto
  show ?case
  proof (cases "c = 10")
    case True
    with Cons show ?thesis by auto
  next
    case False
    with Cons.prems sp have "l = c # h \<or> l \<in> set t" by auto
    then show ?thesis
      using False Cons.IH sp by auto
  qed
qed

lemma updated_text_map_lines:
  "updated_text d text = join_nl (map (board_line_spec d) (split_nl text))"
  by (simp add: updated_text_def update_lines_map)

lemma board_snapshot:
  "role_status_dict scenario_db (ascii ''Albedo'') = Some None"
  "role_status_dict scenario_db (ascii ''Kafka'') = Some (Some 42)"
  "role_status_dict scenario_db (ascii ''Free text'') = None"
  by (simp_all add: role_status_dict_def scenario_defs)

lemma board_text_updated:
  "updated_text (role_status_dict scenario_db) board_text = board_text_synced"
proof -
  have lines: "split_nl board_text =
      [[1057, 1055, 1048, 1057, 1054, 1050], ascii ''Albedo '' @ [CLOCK], [],
       ascii ''  Kafka'', ascii ''Free text '' @ [CHECK_MARK]]"
    by (simp add: board_text_def ascii_def CLOCK_def CHECK_MARK_def)
  have names:
    "strip (replace_empty (replace_empty (strip (ascii ''Albedo '' @ [CLOCK])) CHECK_MARK) CLOCK)
       = ascii ''Albedo''"
    "strip (replace_empty (replace_empty (strip (ascii ''  Kafka'')) CHECK_MARK) CLOCK)
       = ascii ''Kafka''"
    "strip (replace_empty (replace_empty (strip (ascii ''Free text '' @ [CHECK_MARK])) CHECK_MARK) CLOCK)
       = ascii ''Free text''"
    by (simp_all add: strip_def replace_empty_def py_isspace_def ascii_def CLOCK_def
        CHECK_MARK_def)
  have tests:
    "\<not> list_ex (\<lambda>marker. substring_in marker (ascii ''Albedo '' @ [CLOCK])) MARKERS"
    "\<not> list_ex (\<lambda>marker. substring_in marker (ascii ''  Kafka'')) MARKERS"
    "\<not> list_ex (\<lambda>marker. substring_in marker (ascii ''Free text '' @ [CHECK_MARK])) MARKERS"
    by (simp_all add: MARKERS_def startswith_def ascii_def CLOCK_def CHECK_MARK_def)
  have blanks:
    "strip [] = []"
    "strip (ascii ''Albedo '' @ [CLOCK]) \<noteq> []"
    "strip (ascii ''  Kafka'') \<noteq> []"
    "strip (ascii ''Free text '' @ [CHECK_MARK]) \<noteq> []"
    by (simp_all add: strip_def py_isspace_def ascii_def CLOCK_def CHECK_MARK_def)
  have rest: "update_lines (role_status_dict scenario_db)
       [ascii ''Albedo '' @ [CLOCK], [], ascii ''  Kafka'', ascii ''Free text '' @ [CHECK_MARK]]
       [[1057, 1055, 1048, 1057, 1054, 1050]] =
      [[1057, 1055, 1048, 1057, 1054, 1050], ascii ''Albedo'', [],
       ascii ''Kafka'' @ [32, CHECK_MARK], ascii ''Free text '' @ [CHECK_MARK]]"
    by (simp add: names tests blanks board_snapshot)
  have header: "update_lines d ([1057, 1055, 1048, 1057, 1054, 1050] # ls) []
       = update_lines d ls [[1057, 1055, 1048, 1057, 1054, 1050]]" for d ls
    by (simp add: MARKERS_def startswith_def)
  show ?thesis
    unfolding updated_text_def lines header rest
    by (simp add: board_text_synced_def ascii_def)
qed

text \<open>
  Claim C7. \<open>update_role_message\<close> does nothing and returns false when no board is stored for
  the game type. Otherwise it makes one chat edit, addressed to the stored channel and
  message, and returns whether the edit went through; the text it pushes is the stored
  board text taken line by line (the lines between newlines, which joined again give the
  stored text), every line replaced by what the line rule of the specification gives for it
  under the snapshot of the roles table (a name is known when a role has it, occupied when
  that role's occupant is not null): blank and decorative lines and lines with an unknown
  name unchanged, a known name bare when free and with the check mark suffix when occupied.
\<close>

theorem update_role_message_line_by_line:
  "(role_messages db gtype = None \<longrightarrow> update_role_message db gtype b = (False, []))
   \<and> (\<forall>rm. role_messages db gtype = Some rm \<longrightarrow>
         update_role_message db gtype b
           = (b (channel_id rm) (message_id rm)
                (join_nl (map (board_line_spec (role_status_dict db))
                              (split_nl (rm_message_text rm)))),
              [(channel_id rm, message_id rm,
                join_nl (map (board_line_spec (role_status_dict db))
                             (split_nl (rm_message_text rm))))])
         \<and> join_nl (split_nl (rm_message_text rm)) = rm_message_text rm
         \<and> (\<forall>l \<in> set (split_nl (rm_message_text rm)). 10 \<notin> set l))
   \<and> (\<forall>n. role_status_dict db n
           = (case roles db n of None \<Rightarrow> None | Some role \<Rightarrow> Some (occupied_by role)))"
proof (intro conjI allI impI)
  assume "role_messages db gtype = None"
  then show "update_role_message db gtype b = (False, [])"
    by (simp add: update_role_message_def)
next
  fix rm
  assume "role_messages db gtype = Some rm"
  then show "update_role_message db gtype b
           = (b (channel_id rm) (message_id rm)
                (join_nl (map (board_line_spec (role_status_dict db))
                              (split_nl (rm_message_text rm)))),
              [(channel_id rm, message_id rm,
                join_nl (map (board_line_spec (role_status_dict db))
                             (split_nl (rm_message_text rm))))])"
    by (simp add: update_role_message_def Let_def updated_text_map_lines)
next
  fix rm
  show "join_nl (split_nl (rm_message_text rm)) = rm_message_text rm"
    by (rule join_split_nl)
next
  fix rm
  show "\<forall>l \<in> set (split_nl (rm_message_text rm)). 10 \<notin> set l"
    using split_nl_no_newline by blast
next
  fix n
  show "role_status_dict db n
          = (case roles db n of None \<Rightarrow> None | Some role \<Rightarrow> Some (occupied_by role))"
    by (simp add: role_status_dict_def split: option.splits)
qed

lemma board_db_tables:
  "role_messages board_db (ascii ''genshin'')
     = Some \<lparr>channel_id = -100123456, message_id = 123, rm_message_text = board_text\<rparr>"
  "role_messages board_db (ascii ''hsr'') = None"
  "role_status_dict board_db = role_status_dict scenario_db"
  by (simp_all add: board_db_def save_role_message_def role_status_dict_def scenario_defs)

theorem update_role_message_line_by_line_witness:
  "update_role_message board_db (ascii ''genshin'') (\<lambda>chat msg txt. True)
     = (True, [(-100123456, 123, board_text_synced)])
   \<and> update_role_message board_db (ascii ''genshin'') (\<lambda>chat msg txt. False)
     = (False, [(-100123456, 123, board_text_synced)])
   \<and> update_role_message board_db (ascii ''hsr'') (\<lambda>chat msg txt. True) = (False, [])
   \<and> board_text_synced \<noteq> board_text"
proof -
  have synced:
    "join_nl (map (board_line_spec (role_status_dict scenario_db)) (split_nl board_text))
       = board_text_synced"
    using updated_text_map_lines [of "role_status_dict scenario_db" board_text]
      board_text_updated
    by simp
  have changed: "board_text_synced \<noteq> board_text"
    by (simp add: board_text_synced_def board_text_def ascii_def CLOCK_def CHECK_MARK_def)
  have a: "update_role_message board_db (ascii ''genshin'') (\<lambda>chat msg txt. True)
     = (True, [(-100123456, 123, board_text_synced)])"
    using update_role_message_line_by_line
            [of board_db "ascii ''genshin''" "\<lambda>chat msg txt. True"]
      board_db_tables synced
    by simp
  have b: "update_role_message board_db (ascii ''genshin'') (\<lambda>chat msg txt. False)
     = (False, [(-100123456, 123, board_text_synced)])"
    using update_role_message_line_by_line
            [of board_db "ascii ''genshin''" "\<lambda>chat msg txt. False"]
      board_db_tables synced
    by simp
  have c: "update_role_message board_db (ascii ''hsr'') (\<lambda>chat msg txt. True) = (False, [])"
    using update_role_message_line_by_line
            [of board_db "ascii ''hsr''" "\<lambda>chat msg txt. True"]
      board_db_tables(2)
    by blast
  from a b c changed show ?thesis
    by blast
qed

end
